theory Spec2Isabelle
  imports Main
begin

section \<open>The Nx::Blender add-on stub\<close>

text \<open>
  The add-on is one module, \<^verbatim>\<open>scripts/addons_core/nx/__init__.py\<close>. Its body
  binds the module global \<^verbatim>\<open>bl_info\<close> to a dictionary literal and defines two
  callables, \<^verbatim>\<open>register\<close> and \<^verbatim>\<open>unregister\<close>, each of which is a single
  \<^verbatim>\<open>print\<close> of a fixed string.
\<close>

subsection \<open>Python values and dictionaries\<close>

text \<open>
  The values stored in \<^verbatim>\<open>bl_info\<close> are strings and tuples of integers. Python
  integers are unbounded, hence \<open>int\<close>.
\<close>

datatype py_value = PyStr string | PyInt int | PyTuple "py_value list"

text \<open>
  A dictionary keeps its insertion order, so it is an association list. Subscription
  \<^verbatim>\<open>d[k]\<close> raises \<^verbatim>\<open>KeyError\<close> on a missing key.
\<close>

type_synonym py_dict = "(string \<times> py_value) list"

text \<open>
  The exceptions that can arise: \<^verbatim>\<open>KeyError\<close> with the key,
  \<^verbatim>\<open>ValueError\<close> with its message, \<^verbatim>\<open>OSError\<close> with its errno.
\<close>

datatype exn = KeyError string | ValueError string | OSError int

definition dict_get :: "py_dict \<Rightarrow> string \<Rightarrow> exn + py_value" where
  "dict_get d k = (case map_of d k of None \<Rightarrow> Inl (KeyError k) | Some v \<Rightarrow> Inr v)"

subsection \<open>The descriptor\<close>

text \<open>
  \<^verbatim>\<open>
  bl_info = {
      "name": "Nx::Blender",
      "author": "Hardronix",
      "version": (0, 0, 1),
      "blender": (4, 2, 0),
      "location": "Global",
      "description": "NX features support",
      "warning": "",
      "doc_url": "",
      "support": 'OFFICIAL',
      "category": "Global",
  }
  \<close>
\<close>

definition bl_info :: py_dict where
  "bl_info =
    [(''name'', PyStr ''Nx::Blender''),
     (''author'', PyStr ''Hardronix''),
     (''version'', PyTuple [PyInt 0, PyInt 0, PyInt 1]),
     (''blender'', PyTuple [PyInt 4, PyInt 2, PyInt 0]),
     (''location'', PyStr ''Global''),
     (''description'', PyStr ''NX features support''),
     (''warning'', PyStr ''''),
     (''doc_url'', PyStr ''''),
     (''support'', PyStr ''OFFICIAL''),
     (''category'', PyStr ''Global'')]"

text \<open>A tuple of exactly three integers, none of them negative.\<close>

fun nonneg_triple :: "py_value \<Rightarrow> bool" where
  "nonneg_triple (PyTuple [PyInt a, PyInt b, PyInt c]) = (0 \<le> a \<and> 0 \<le> b \<and> 0 \<le> c)"
| "nonneg_triple _ = False"

subsection \<open>The process state\<close>

text \<open>
  \<^verbatim>\<open>print\<close> writes to whatever \<^verbatim>\<open>sys.stdout\<close> is when it is called, so
  the state holds that object. A text stream is open, closed, or open on a device whose
  writes fail with some errno; \<open>written\<close> is the text that has reached it.
  \<^verbatim>\<open>sys.stdout\<close> is \<^verbatim>\<open>None\<close> in a process started without a standard
  output.
\<close>

datatype stream_status = Open | Closed | Failing int

record text_stream =
  status :: stream_status
  written :: string

text \<open>
  What the module can observe or change: \<^verbatim>\<open>sys.stdout\<close> and the module global
  \<^verbatim>\<open>bl_info\<close>. The record is extensible; the extension part stands for everything
  else in the process (files, sockets, the host's own data), so a function that returns
  its argument with only \<open>sys_stdout\<close> updated has touched nothing else.
\<close>

record world =
  sys_stdout :: "text_stream option"
  g_bl_info :: py_dict

definition newline :: char where
  "newline = CHR 0x0A"

text \<open>
  \<^verbatim>\<open>file.write(t)\<close>: a closed stream raises \<^verbatim>\<open>ValueError\<close>, a failing
  device raises \<^verbatim>\<open>OSError\<close>, an open stream takes the text.
\<close>

fun stream_write :: "string \<Rightarrow> text_stream \<Rightarrow> exn + text_stream" where
  "stream_write t f =
     (case status f of
        Open \<Rightarrow> Inr (f\<lparr>written := written f @ t\<rparr>)
      | Closed \<Rightarrow> Inl (ValueError ''I/O operation on closed file'')
      | Failing errno \<Rightarrow> Inl (OSError errno))"

text \<open>
  \<^verbatim>\<open>print(s)\<close> with the default separator, end and file. The builtin reads
  \<^verbatim>\<open>sys.stdout\<close>; when that is \<^verbatim>\<open>None\<close> it returns at once and writes
  nothing; otherwise it writes the string and then the newline, and an exception of
  either write propagates. The result is the exception raised, if any, and the state
  the process is left in.
\<close>

definition py_print :: "string \<Rightarrow> 'a world_scheme \<Rightarrow> exn option \<times> 'a world_scheme" where
  "py_print s w =
     (case sys_stdout w of
        None \<Rightarrow> (None, w)
      | Some f \<Rightarrow>
          (case stream_write s f of
             Inl e \<Rightarrow> (Some e, w)
           | Inr f1 \<Rightarrow>
               (case stream_write [newline] f1 of
                  Inl e \<Rightarrow> (Some e, w\<lparr>sys_stdout := Some f1\<rparr>)
                | Inr f2 \<Rightarrow> (None, w\<lparr>sys_stdout := Some f2\<rparr>))))"

text \<open>
  The module body. \<^verbatim>\<open>import bpy\<close> binds the host's own module, which neither
  callback uses; the two \<^verbatim>\<open>def\<close> statements bind the callbacks below; what is
  left is the assignment of the dictionary literal to the global.
\<close>

definition load_module :: "'a world_scheme \<Rightarrow> 'a world_scheme" where
  "load_module w = w\<lparr>g_bl_info := bl_info\<rparr>"

subsection \<open>The lifecycle callbacks\<close>

text \<open>
  \<^verbatim>\<open>
  def register() -> None:
      print("NX init!")

  def unregister() -> None:
      print("NX uninit!")
  \<close>
\<close>

definition register :: "'a world_scheme \<Rightarrow> exn option \<times> 'a world_scheme" where
  "register w = py_print ''NX init!'' w"

definition unregister :: "'a world_scheme \<Rightarrow> exn option \<times> 'a world_scheme" where
  "unregister w = py_print ''NX uninit!'' w"

subsection \<open>The host's invocations\<close>

text \<open>
  The host calls the two callbacks one after the other. An exception raised by a call
  ends the sequence, as it would propagate to the host; the state stays as the raising
  call left it.
\<close>

datatype invocation = Register | Unregister

fun call :: "invocation \<Rightarrow> 'a world_scheme \<Rightarrow> exn option \<times> 'a world_scheme" where
  "call Register w = register w"
| "call Unregister w = unregister w"

fun run :: "invocation list \<Rightarrow> 'a world_scheme \<Rightarrow> exn option \<times> 'a world_scheme" where
  "run [] w = (None, w)"
| "run (c # cs) w =
     (case call c w of (Some e, w') \<Rightarrow> (Some e, w') | (None, w') \<Rightarrow> run cs w')"

subsection \<open>Observing the output\<close>

text \<open>The text that has reached the standard output; none when there is no stream.\<close>

definition stdout_text :: "'a world_scheme \<Rightarrow> string" where
  "stdout_text w = (case sys_stdout w of None \<Rightarrow> [] | Some f \<Rightarrow> written f)"

text \<open>What \<^verbatim>\<open>sys.stdout\<close> is, its contents apart.\<close>

definition stdout_mode :: "'a world_scheme \<Rightarrow> stream_status option" where
  "stdout_mode w = map_option status (sys_stdout w)"

text \<open>
  The text an operation adds to the standard output when started in \<open>w\<close>;
  \<open>None\<close> when the operation raises.
\<close>

definition emitted :: "('a world_scheme \<Rightarrow> exn option \<times> 'a world_scheme) \<Rightarrow> 'a world_scheme \<Rightarrow> string option" where
  "emitted op w =
    (case op w of
       (Some e, w') \<Rightarrow> None
     | (None, w') \<Rightarrow> Some (drop (length (stdout_text w)) (stdout_text w')))"

text \<open>
  The lines of a text, split at newlines as \<^verbatim>\<open>str.splitlines\<close> does: a final
  newline ends the last line and opens no new, empty one.
\<close>

fun splitlines_from :: "string \<Rightarrow> string \<Rightarrow> string list" where
  "splitlines_from cur [] = (if cur = [] then [] else [cur])"
| "splitlines_from cur (c # cs) =
     (if c = newline then cur # splitlines_from [] cs else splitlines_from (cur @ [c]) cs)"

definition splitlines :: "string \<Rightarrow> string list" where
  "splitlines s = splitlines_from [] s"

text \<open>The line each callback is expected to write, for stating what a sequence prints.\<close>

fun marker_line :: "invocation \<Rightarrow> string" where
  "marker_line Register = ''NX init!'' @ [newline]"
| "marker_line Unregister = ''NX uninit!'' @ [newline]"

section \<open>Properties\<close>

subsection \<open>Printing, by the state of the stream\<close>

lemma py_print_open:
  assumes "sys_stdout w = Some f" and "status f = Open"
  shows "py_print s w = (None, w\<lparr>sys_stdout := Some (f\<lparr>written := written f @ s @ [newline]\<rparr>)\<rparr>)"
  using assms by (simp add: py_print_def)

lemma py_print_absent:
  assumes "sys_stdout w = None"
  shows "py_print s w = (None, w)"
  using assms by (simp add: py_print_def)

lemma py_print_closed:
  assumes "sys_stdout w = Some f" and "status f = Closed"
  shows "py_print s w = (Some (ValueError ''I/O operation on closed file''), w)"
  using assms by (simp add: py_print_def)

lemma py_print_failing:
  assumes "sys_stdout w = Some f" and "status f = Failing n"
  shows "py_print s w = (Some (OSError n), w)"
  using assms by (simp add: py_print_def)

lemma call_open:
  assumes "sys_stdout w = Some f" and "status f = Open"
  shows "call c w = (None, w\<lparr>sys_stdout := Some (f\<lparr>written := written f @ marker_line c\<rparr>)\<rparr>)"
  using assms by (cases c) (simp_all add: register_def unregister_def py_print_open)

lemma call_absent:
  assumes "sys_stdout w = None"
  shows "call c w = (None, w)"
  using assms by (cases c) (simp_all add: register_def unregister_def py_print_absent)

lemma call_not_open:
  assumes "sys_stdout w = Some f" and "status f \<noteq> Open"
  shows "snd (call c w) = w"
proof (cases "status f")
  case Open
  with assms show ?thesis by simp
next
  case Closed
  with assms show ?thesis
    by (cases c) (simp_all add: register_def unregister_def py_print_closed)
next
  case (Failing n)
  with assms show ?thesis
    by (cases c) (simp_all add: register_def unregister_def py_print_failing)
qed

lemma run_open:
  assumes "sys_stdout w = Some f" and "status f = Open"
  shows "run cs w =
    (None, w\<lparr>sys_stdout := Some (f\<lparr>written := written f @ concat (map marker_line cs)\<rparr>)\<rparr>)"
  using assms
proof (induction cs arbitrary: w f)
  case Nil
  then show ?case by simp
next
  case (Cons c cs)
  let ?f1 = "f\<lparr>written := written f @ marker_line c\<rparr>"
  let ?w1 = "w\<lparr>sys_stdout := Some ?f1\<rparr>"
  have step: "call c w = (None, ?w1)"
    using Cons.prems by (rule call_open)
  have "run cs ?w1 =
      (None, ?w1\<lparr>sys_stdout := Some (?f1\<lparr>written := written ?f1 @ concat (map marker_line cs)\<rparr>)\<rparr>)"
    using Cons.prems by (intro Cons.IH) simp_all
  with step show ?case by simp
qed

lemma run_absent:
  assumes "sys_stdout w = None"
  shows "run cs w = (None, w)"
  using assms by (induction cs) (simp_all add: call_absent)

lemma run_not_open:
  assumes "sys_stdout w = Some f" and "status f \<noteq> Open"
  shows "snd (run cs w) = w"
proof (cases cs)
  case Nil
  then show ?thesis by simp
next
  case (Cons c ds)
  have "snd (call c w) = w"
    using assms by (rule call_not_open)
  moreover have "fst (call c w) \<noteq> None"
    using assms
    by (cases c; cases "status f")
       (simp_all add: register_def unregister_def py_print_closed py_print_failing)
  ultimately show ?thesis
    using Cons by (cases "call c w") (auto split: option.splits)
qed





text \<open>Whatever the stream, a sequence leaves the state as it was but for the output.\<close>

lemma run_frame:
  "\<exists>out. snd (run cs w) =
      w\<lparr>sys_stdout := map_option (\<lambda>f. f\<lparr>written := written f @ out\<rparr>) (sys_stdout w)\<rparr>"
proof (cases "sys_stdout w")
  case None
  then have "snd (run cs w) = w" by (simp add: run_absent)
  with None show ?thesis by simp
next
  case (Some f)
  show ?thesis
  proof (cases "status f = Open")
    case True
    with Some show ?thesis by (auto simp: run_open)
  next
    case False
    with Some have "snd (run cs w) = w" by (rule run_not_open)
    moreover have "w\<lparr>sys_stdout := Some (f\<lparr>written := written f @ []\<rparr>)\<rparr> = w"
      using Some by simp
    ultimately show ?thesis using Some
      by (intro exI [of _ "[]"]) simp
  qed
qed

lemma register_outcome:
  "fst (register w) =
     (case stdout_mode w of
        None \<Rightarrow> None
      | Some Open \<Rightarrow> None
      | Some Closed \<Rightarrow> Some (ValueError ''I/O operation on closed file'')
      | Some (Failing n) \<Rightarrow> Some (OSError n))"
  by (simp add: register_def py_print_def stdout_mode_def
           split: option.splits stream_status.splits)

lemma unregister_outcome:
  "fst (unregister w) =
     (case stdout_mode w of
        None \<Rightarrow> None
      | Some Open \<Rightarrow> None
      | Some Closed \<Rightarrow> Some (ValueError ''I/O operation on closed file'')
      | Some (Failing n) \<Rightarrow> Some (OSError n))"
  by (simp add: unregister_def py_print_def stdout_mode_def
           split: option.splits stream_status.splits)

lemma register_emitted:
  "emitted register w =
     (case stdout_mode w of
        None \<Rightarrow> Some []
      | Some Open \<Rightarrow> Some (''NX init!'' @ [newline])
      | Some Closed \<Rightarrow> None
      | Some (Failing n) \<Rightarrow> None)"
  by (simp add: emitted_def register_def py_print_def stdout_mode_def stdout_text_def
           split: option.splits stream_status.splits)

lemma unregister_emitted:
  "emitted unregister w =
     (case stdout_mode w of
        None \<Rightarrow> Some []
      | Some Open \<Rightarrow> Some (''NX uninit!'' @ [newline])
      | Some Closed \<Rightarrow> None
      | Some (Failing n) \<Rightarrow> None)"
  by (simp add: emitted_def unregister_def py_print_def stdout_mode_def stdout_text_def
           split: option.splits stream_status.splits)


subsection \<open>The two callbacks\<close>








subsection \<open>Sequences of invocations\<close>




text \<open>
  Claim C4. No sequence of the two callbacks changes the descriptor, whatever
  \<^verbatim>\<open>sys.stdout\<close> is and whether or not a call raises. From any state \<open>w\<close> a
  sequence leaves \<open>w\<close> with at most some text added to its output stream, so the global
  \<^verbatim>\<open>bl_info\<close> is what it was; started right after the module has been loaded, the
  global is still the dictionary of the source afterwards.
\<close>

theorem callbacks_keep_descriptor:
  "(\<exists>out. snd (run cs w) =
      w\<lparr>sys_stdout := map_option (\<lambda>f. f\<lparr>written := written f @ out\<rparr>) (sys_stdout w)\<rparr>) \<and>
   g_bl_info (snd (run cs w)) = g_bl_info w \<and>
   g_bl_info (load_module w) = bl_info \<and>
   g_bl_info (snd (run cs (load_module w))) = bl_info"
proof -
  have frame: "g_bl_info (snd (run cs v)) = g_bl_info v" for v :: "'a world_scheme"
  proof -
    obtain out where "snd (run cs v) =
        v\<lparr>sys_stdout := map_option (\<lambda>f. f\<lparr>written := written f @ out\<rparr>) (sys_stdout v)\<rparr>"
      using run_frame [of cs v] by blast
    then show ?thesis by simp
  qed
  have "g_bl_info (load_module w) = bl_info"
    by (simp add: load_module_def)
  moreover have "g_bl_info (snd (run cs (load_module w))) = bl_info"
    by (simp add: frame load_module_def)
  ultimately show ?thesis
    using run_frame [of cs w] frame [of w] by blast
qed







text \<open>
  Claim C9 does not hold in every state. The callbacks do consult the environment: the same
  \<^verbatim>\<open>register()\<close> writes its line on an open stream, writes nothing when
  \<^verbatim>\<open>sys.stdout\<close> is \<^verbatim>\<open>None\<close>, and raises on a closed stream.
\<close>

theorem output_differs_between_runs:
  "emitted register \<lparr>sys_stdout = Some \<lparr>status = Open, written = ''log: ''\<rparr>, g_bl_info = bl_info\<rparr> = Some (''NX init!'' @ [newline]) \<and>
   emitted register \<lparr>sys_stdout = None, g_bl_info = bl_info\<rparr> = Some [] \<and>
   emitted register \<lparr>sys_stdout = Some \<lparr>status = Closed, written = []\<rparr>, g_bl_info = bl_info\<rparr> = None \<and>
   emitted register \<lparr>sys_stdout = Some \<lparr>status = Open, written = ''log: ''\<rparr>, g_bl_info = bl_info\<rparr> \<noteq> emitted register \<lparr>sys_stdout = None, g_bl_info = bl_info\<rparr>"
  by (simp add: register_def py_print_def emitted_def stdout_text_def)

text \<open>
  Claim C9, relative to the stream. The callbacks take no argument and consult nothing of the state
  but what \<^verbatim>\<open>sys.stdout\<close> is (an open stream, a closed one, one that fails with
  some errno, or \<^verbatim>\<open>None\<close>): any two runs of the same operation in states that agree
  on that raise the same exception or none, and write the same text. On an open stream
  that text is the single marker line; on a closed or failing stream the call raises;
  with no stream it writes nothing.
\<close>

theorem callbacks_deterministic:
  assumes "stdout_mode w1 = stdout_mode w2"
  shows "fst (register w1) = fst (register w2) \<and>
         emitted register w1 = emitted register w2 \<and>
         fst (unregister w1) = fst (unregister w2) \<and>
         emitted unregister w1 = emitted unregister w2 \<and>
         (case stdout_mode w1 of
            None \<Rightarrow> emitted register w1 = Some [] \<and> emitted unregister w1 = Some []
          | Some Open \<Rightarrow>
              map_option splitlines (emitted register w1) = Some [''NX init!''] \<and>
              map_option splitlines (emitted unregister w1) = Some [''NX uninit!'']
          | Some Closed \<Rightarrow> emitted register w1 = None \<and> emitted unregister w1 = None
          | Some (Failing n) \<Rightarrow> emitted register w1 = None \<and> emitted unregister w1 = None)"
proof -
  have same: "fst (register w1) = fst (register w2) \<and>
         emitted register w1 = emitted register w2 \<and>
         fst (unregister w1) = fst (unregister w2) \<and>
         emitted unregister w1 = emitted unregister w2"
    by (simp only: register_outcome unregister_outcome register_emitted
          unregister_emitted assms simp_thms)
  have "case stdout_mode w1 of
            None \<Rightarrow> emitted register w1 = Some [] \<and> emitted unregister w1 = Some []
          | Some Open \<Rightarrow>
              map_option splitlines (emitted register w1) = Some [''NX init!''] \<and>
              map_option splitlines (emitted unregister w1) = Some [''NX uninit!'']
          | Some Closed \<Rightarrow> emitted register w1 = None \<and> emitted unregister w1 = None
          | Some (Failing n) \<Rightarrow> emitted register w1 = None \<and> emitted unregister w1 = None"
    by (simp add: register_emitted unregister_emitted splitlines_def newline_def
          split: option.splits stream_status.splits)
  with same show ?thesis by (simp only: simp_thms)
qed

theorem callbacks_deterministic_witness:
  "stdout_mode \<lparr>sys_stdout = Some \<lparr>status = Open, written = ''log: ''\<rparr>, g_bl_info = bl_info\<rparr> =
     stdout_mode \<lparr>sys_stdout = Some \<lparr>status = Open, written = []\<rparr>, g_bl_info = []\<rparr> \<and>
   emitted register \<lparr>sys_stdout = Some \<lparr>status = Open, written = ''log: ''\<rparr>, g_bl_info = bl_info\<rparr> =
     emitted register \<lparr>sys_stdout = Some \<lparr>status = Open, written = []\<rparr>, g_bl_info = []\<rparr> \<and>
   emitted unregister \<lparr>sys_stdout = Some \<lparr>status = Open, written = ''log: ''\<rparr>, g_bl_info = bl_info\<rparr> =
     emitted unregister \<lparr>sys_stdout = Some \<lparr>status = Open, written = []\<rparr>, g_bl_info = []\<rparr> \<and>
   map_option splitlines (emitted register \<lparr>sys_stdout = Some \<lparr>status = Open, written = ''log: ''\<rparr>, g_bl_info = bl_info\<rparr>) = Some [''NX init!''] \<and>
   map_option splitlines (emitted unregister \<lparr>sys_stdout = Some \<lparr>status = Open, written = ''log: ''\<rparr>, g_bl_info = bl_info\<rparr>) = Some [''NX uninit!'']"
proof -
  have h: "stdout_mode \<lparr>sys_stdout = Some \<lparr>status = Open, written = ''log: ''\<rparr>, g_bl_info = bl_info\<rparr> =
      stdout_mode \<lparr>sys_stdout = Some \<lparr>status = Open, written = []\<rparr>, g_bl_info = []\<rparr>"
    by (simp add: stdout_mode_def)
  show ?thesis
    using h callbacks_deterministic [OF h]
    by (simp add: stdout_mode_def register_def unregister_def py_print_def emitted_def
          stdout_text_def splitlines_def newline_def)
qed

subsection \<open>The fields of the descriptor\<close>

lemma bl_info_keys_distinct: "distinct (map fst bl_info)"
  by (simp add: bl_info_def)

text \<open>
  Claim C5. \<^verbatim>\<open>bl_info["version"]\<close> is the tuple \<^verbatim>\<open>(0, 0, 1)\<close> and
  \<^verbatim>\<open>bl_info["blender"]\<close> is the tuple \<^verbatim>\<open>(4, 2, 0)\<close>; each is a tuple of
  exactly three integers, none negative.
\<close>

theorem versions_are_nonneg_triples:
  "dict_get bl_info ''version'' = Inr (PyTuple [PyInt 0, PyInt 0, PyInt 1]) \<and>
   dict_get bl_info ''blender'' = Inr (PyTuple [PyInt 4, PyInt 2, PyInt 0]) \<and>
   map_sum id nonneg_triple (dict_get bl_info ''version'') = Inr True \<and>
   map_sum id nonneg_triple (dict_get bl_info ''blender'') = Inr True"
  by (simp add: dict_get_def bl_info_def)

text \<open>
  Claim C6. \<^verbatim>\<open>bl_info["category"]\<close> and \<^verbatim>\<open>bl_info["location"]\<close> are both the
  string \<^verbatim>\<open>Global\<close>.
\<close>

theorem category_and_location_global:
  "dict_get bl_info ''category'' = Inr (PyStr ''Global'') \<and>
   dict_get bl_info ''location'' = Inr (PyStr ''Global'')"
  by (simp add: dict_get_def bl_info_def)

text \<open>
  Claim C10. \<^verbatim>\<open>bl_info["warning"]\<close> and \<^verbatim>\<open>bl_info["doc_url"]\<close> are both the
  empty string.
\<close>

theorem warning_and_doc_url_empty:
  "dict_get bl_info ''warning'' = Inr (PyStr []) \<and>
   dict_get bl_info ''doc_url'' = Inr (PyStr [])"
  by (simp add: dict_get_def bl_info_def)

end
